theory Spec2Isabelle
  imports Main "HOL-Library.Sublist"
begin

section \<open>Python values, strings and exceptions\<close>

text \<open>
  The decorators of \<^verbatim>\<open>flask_rest_jsonapi/decorators.py\<close> read the ambient request
  and application, call the wrapped function and either return its value, return a
  response of their own or raise. The embedding makes each of these explicit: header and
  configuration values are Python values, a call is a function on a world state that
  yields an exception or a value, and a wrapper yields an exception or a reply.
  Strings are lists of 8-bit characters, read as the Latin-1 code points a WSGI
  environment holds.
\<close>

datatype pyval =
    PyNone
  | PyBool bool
  | PyInt int
  | PyStr string
  | PyDict "(string \<times> string) list"

text \<open>Truth value of an object, as \<^verbatim>\<open>or\<close> tests it.\<close>

fun truthy :: "pyval \<Rightarrow> bool" where
  "truthy PyNone = False"
| "truthy (PyBool b) = b"
| "truthy (PyInt n) = (n \<noteq> 0)"
| "truthy (PyStr s) = (s \<noteq> [])"
| "truthy (PyDict d) = (d \<noteq> [])"

text \<open>\<^verbatim>\<open>a or b\<close>: the first operand when it is true, the second otherwise.\<close>

definition py_or :: "pyval \<Rightarrow> pyval \<Rightarrow> pyval" where
  "py_or a b = (if truthy a then a else b)"

text \<open>
  \<^verbatim>\<open>str.isspace\<close> on the code points below 256: tab, line feed, vertical tab, form
  feed, carriage return, the four separators 28 to 31, space, NEL (133) and the
  no-break space (160).
\<close>

definition is_space :: "char \<Rightarrow> bool" where
  "is_space c = ((of_char c :: nat) \<in> {9, 10, 11, 12, 13, 28, 29, 30, 31, 32, 133, 160})"

text \<open>\<^verbatim>\<open>s.strip()\<close>: leading and trailing whitespace removed.\<close>

definition strip :: "string \<Rightarrow> string" where
  "strip s = rev (dropWhile is_space (rev (dropWhile is_space s)))"

text \<open>
  \<^verbatim>\<open>s.split(sep)\<close> for a one-character separator: the pieces between the
  separators, so always at least one piece.
\<close>

fun split :: "char \<Rightarrow> string \<Rightarrow> string list" where
  "split sep [] = [[]]"
| "split sep (c # cs) =
     (if c = sep then [] # split sep cs
      else (case split sep cs of
              [] \<Rightarrow> [[c]]
            | w # ws \<Rightarrow> (c # w) # ws))"

text \<open>
  \<^verbatim>\<open>s.lower()\<close> on the code points below 256: the letters A to Z and the accented
  capitals 192 to 222 (the multiplication sign 215 apart) move up by 32.
\<close>

definition lower_char :: "char \<Rightarrow> char" where
  "lower_char c =
     (let n = (of_char c :: nat)
      in if (65 \<le> n \<and> n \<le> 90) \<or> (192 \<le> n \<and> n \<le> 222 \<and> n \<noteq> 215)
         then char_of (n + 32) else c)"

definition lower :: "string \<Rightarrow> string" where
  "lower s = map lower_char s"

text \<open>
  An exception object outside the \<^verbatim>\<open>JsonApiException\<close> family: the name of its
  class, what \<^verbatim>\<open>str(e)\<close> gives, and the attributes \<^verbatim>\<open>getattr\<close> can find on it.
\<close>

record py_exception =
  exc_class :: string
  exc_str :: string
  exc_attrs :: "string \<rightharpoonup> pyval"

definition getattr :: "py_exception \<Rightarrow> string \<Rightarrow> pyval \<Rightarrow> pyval" where
  "getattr e name dflt = (case exc_attrs e name of None \<Rightarrow> dflt | Some v \<Rightarrow> v)"

text \<open>
  Modelled from the spec: the class \<^verbatim>\<open>JsonApiException\<close> (flask_rest_jsonapi/exceptions.py
  is not among the sources). The spec describes it as a failure value carrying the fields
  of an error object (source, detail, title, status, code, id, links, meta) with a default
  status of 400 when unset.
\<close>

record japi_exception =
  detail :: pyval
  source :: pyval
  title :: pyval
  status :: pyval
  code :: pyval
  err_id :: pyval
  links :: pyval
  meta :: pyval

text \<open>
  Modelled from the spec: the constructor call
  \<^verbatim>\<open>JsonApiException(detail, source=, title=, status=, code=, id_=, links=, meta=)\<close>;
  every field is the argument given, and an unset status becomes the default 400.
\<close>

definition JsonApiException_init ::
  "pyval \<Rightarrow> pyval \<Rightarrow> pyval \<Rightarrow> pyval \<Rightarrow> pyval \<Rightarrow> pyval \<Rightarrow> pyval \<Rightarrow> pyval \<Rightarrow> japi_exception" where
  "JsonApiException_init detail' source' title' status' code' id' links' meta' =
     \<lparr>detail = detail', source = source', title = title',
      status = (if status' = PyNone then PyStr ''400'' else status'),
      code = code', err_id = id', links = links', meta = meta'\<rparr>"

text \<open>
  What a call can raise: a \<^verbatim>\<open>JsonApiException\<close> (or a subclass of it), another
  subclass of \<^verbatim>\<open>Exception\<close>, or an exception outside \<^verbatim>\<open>Exception\<close>
  (\<^verbatim>\<open>KeyboardInterrupt\<close>, \<^verbatim>\<open>SystemExit\<close>), which no clause of the module catches.
\<close>

datatype exn =
    JsonApiException japi_exception
  | Exception py_exception
  | BaseException string

text \<open>The exceptions the module's own expressions raise.\<close>

definition KeyError :: "string \<Rightarrow> exn" where
  "KeyError key =
     Exception \<lparr>exc_class = ''KeyError'', exc_str = [CHR 0x27] @ key @ [CHR 0x27],
                exc_attrs = Map.empty\<rparr>"

definition IndexError :: "string \<Rightarrow> exn" where
  "IndexError msg = Exception \<lparr>exc_class = ''IndexError'', exc_str = msg, exc_attrs = Map.empty\<rparr>"

text \<open>The message of an \<^verbatim>\<open>AttributeError\<close> is kept as the name of the missing attribute.\<close>

definition AttributeError :: "string \<Rightarrow> exn" where
  "AttributeError name =
     Exception \<lparr>exc_class = ''AttributeError'', exc_str = name, exc_attrs = Map.empty\<rparr>"

definition PlainException :: "string \<Rightarrow> exn" where
  "PlainException msg = Exception \<lparr>exc_class = ''Exception'', exc_str = msg, exc_attrs = Map.empty\<rparr>"

section \<open>Requests, responses and calls\<close>

text \<open>
  A header value is a string or, as \<^verbatim>\<open>_is_list_like\<close> allows for, a sequence of
  strings. \<^verbatim>\<open>request.headers\<close> is a mapping: \<^verbatim>\<open>name in headers\<close> tests the domain and
  \<^verbatim>\<open>headers[name]\<close> raises \<^verbatim>\<open>KeyError\<close> outside it.
\<close>

datatype header_value = HStr (str_of: string) | HSeq (seq_of: "string list")

record request =
  req_method :: string
  headers :: "string \<rightharpoonup> header_value"

definition ALLOWED_HEADERS :: "string set" where
  "ALLOWED_HEADERS = {''application/vnd.api+json'', ''application/json''}"

text \<open>\<^verbatim>\<open>_is_list_like\<close>: a sequence that is not a string.\<close>

fun is_list_like :: "header_value \<Rightarrow> bool" where
  "is_list_like (HStr x) = False"
| "is_list_like (HSeq xs) = True"

text \<open>
  Lines 33 to 36: \<^verbatim>\<open>set(v)\<close> when the value is list-like, \<^verbatim>\<open>set([v])\<close>
  otherwise.
\<close>

definition header_set :: "header_value \<Rightarrow> string set" where
  "header_set v = (if is_list_like v then set (seq_of v) else {str_of v})"

type_synonym error_object = "string \<rightharpoonup> pyval"

text \<open>
  Modelled from the spec: \<^verbatim>\<open>jsonapi_errors\<close> (flask_rest_jsonapi/errors.py is not among
  the sources) builds the envelope, a body whose \<^verbatim>\<open>errors\<close> member is the given
  sequence of error objects, in order.
\<close>

record envelope =
  errors :: "error_object list"

definition jsonapi_errors :: "error_object list \<Rightarrow> envelope" where
  "jsonapi_errors es = \<lparr>errors = es\<rparr>"

text \<open>
  Modelled from the spec: \<^verbatim>\<open>to_dict\<close> of \<^verbatim>\<open>JsonApiException\<close> converts the exception
  to an error object with the same fields.
\<close>

definition to_dict :: "japi_exception \<Rightarrow> error_object" where
  "to_dict e =
     [''source'' \<mapsto> source e, ''detail'' \<mapsto> detail e, ''title'' \<mapsto> title e,
      ''status'' \<mapsto> status e, ''code'' \<mapsto> code e, ''id'' \<mapsto> err_id e,
      ''links'' \<mapsto> links e, ''meta'' \<mapsto> meta e]"

text \<open>
  \<^verbatim>\<open>make_response(body, status, headers)\<close> of Flask: the response with these three
  parts. The body is kept as the envelope that \<^verbatim>\<open>json.dumps\<close> or \<^verbatim>\<open>jsonify\<close>
  serialises.
\<close>

record response =
  body :: envelope
  status_code :: pyval
  resp_headers :: "string \<rightharpoonup> string"

definition make_response :: "envelope \<Rightarrow> pyval \<Rightarrow> (string \<rightharpoonup> string) \<Rightarrow> response" where
  "make_response b st hs = \<lparr>body = b, status_code = st, resp_headers = hs\<rparr>"

text \<open>
  The call \<^verbatim>\<open>func(*args, **kwargs)\<close> runs on the world state (whatever the handler
  and the error-tracking integration change) and raises or returns a value. A wrapper
  returns either a response it made itself or the value the wrapped call returned.
\<close>

type_synonym ('s, 'a) call = "'s \<Rightarrow> (exn + 'a) \<times> 's"

datatype 'a reply = Made response | Passed 'a

text \<open>\<^verbatim>\<open>return func(*args, **kwargs)\<close> inside such a wrapper.\<close>

definition return_call :: "('s, 'a) call \<Rightarrow> ('s, 'a reply) call" where
  "return_call func s =
     (case func s of
        (Inl e, s') \<Rightarrow> (Inl e, s')
      | (Inr v, s') \<Rightarrow> (Inr (Passed v), s'))"

section \<open>check_headers\<close>

text \<open>
  The loop over the candidates of the Accept header (lines 45 to 51), with the flag as
  accumulator; \<^verbatim>\<open>break\<close> ends the loop with the flag reset.
\<close>

fun accept_loop :: "bool \<Rightarrow> string list \<Rightarrow> bool" where
  "accept_loop flag [] = flag"
| "accept_loop flag (accept # rest) =
     (if strip accept \<in> ALLOWED_HEADERS then False
      else if sublist ''application/vnd.api+json'' accept
              \<and> strip accept \<noteq> ''application/vnd.api+json''
           then accept_loop True rest
      else accept_loop flag rest)"

definition error_415 :: error_object where
  "error_415 =
     [''source'' \<mapsto> PyStr '''',
      ''detail'' \<mapsto> PyStr ''Content-Type header must be application/vnd.api+json'',
      ''title'' \<mapsto> PyStr ''Invalid request header'',
      ''status'' \<mapsto> PyStr ''415'']"

text \<open>
  The detail of the 406 error is written in the source as two adjacent string literals,
  \<^verbatim>\<open>'... without'\<close> and \<^verbatim>\<open>'media type parameters'\<close>, which Python concatenates as
  they are.
\<close>

definition error_406 :: error_object where
  "error_406 =
     [''source'' \<mapsto> PyStr '''',
      ''detail'' \<mapsto> PyStr (''Accept header must be application/vnd.api+json without''
                           @ ''media type parameters''),
      ''title'' \<mapsto> PyStr ''Invalid request header'',
      ''status'' \<mapsto> PyStr ''406'']"

text \<open>Lines 44 to 59: the Accept check and the call of the wrapped function.\<close>

definition check_accept :: "request \<Rightarrow> ('s, 'a) call \<Rightarrow> ('s, 'a reply) call" where
  "check_accept req func s =
     (case headers req ''Accept'' of
        None \<Rightarrow> return_call func s
      | Some (HSeq xs) \<Rightarrow>
          (Inl (AttributeError ''split''), s)
      | Some (HStr a) \<Rightarrow>
          (if accept_loop False (split CHR '','' a)
           then (Inr (Made (make_response (jsonapi_errors [error_406]) (PyInt 406)
                              [''Content-Type'' \<mapsto> ''application/vnd.api+json''])), s)
           else return_call func s))"

text \<open>
  Lines 31 to 43, then the Accept check. \<^verbatim>\<open>has_content_type_header\<close> is assigned
  \<^verbatim>\<open>'Content-Type' not in request.headers\<close>, and the header is subscripted on the
  next line whether or not it is there.
\<close>

definition check_headers :: "request \<Rightarrow> ('s, 'a) call \<Rightarrow> ('s, 'a reply) call" where
  "check_headers req func s =
     (if req_method req \<in> {''POST'', ''PATCH''} then
        (let has_content_type_header = (headers req ''Content-Type'' = None)
         in case headers req ''Content-Type'' of
              None \<Rightarrow> (Inl (KeyError ''Content-Type''), s)
            | Some v \<Rightarrow>
                (let header_is_allowed = ALLOWED_HEADERS \<inter> header_set v
                 in if \<not> (has_content_type_header \<and> header_is_allowed \<noteq> {})
                    then (Inr (Made (make_response (jsonapi_errors [error_415]) (PyInt 415)
                                       [''Content-Type'' \<mapsto> ''application/vnd.api+json''])), s)
                    else check_accept req func s))
      else check_accept req func s)"

section \<open>check_method_requirements\<close>

text \<open>
  The object a method is called on: the name of its class and the names of its
  attributes, which is all that \<^verbatim>\<open>__class__.__name__\<close> and \<^verbatim>\<open>hasattr\<close> read.
\<close>

record py_instance =
  class_name :: string
  attributes :: "string set"

definition hasattr :: "py_instance \<Rightarrow> string \<Rightarrow> bool" where
  "hasattr obj name = (name \<in> attributes obj)"

text \<open>
  \<^verbatim>\<open>error_message.format(**error_data)\<close>: the template with its three fields filled.
\<close>

definition error_message :: "string \<Rightarrow> string \<Rightarrow> string \<Rightarrow> string" where
  "error_message error_field cls meth =
     ''You must provide '' @ error_field @ '' in '' @ cls
       @ '' to get access to the default '' @ meth @ '' method''"

text \<open>
  Lines 70 to 80. \<^verbatim>\<open>args[0]\<close> is read before the method is looked at, so an empty
  argument tuple raises \<^verbatim>\<open>IndexError\<close> for every method.
\<close>

definition check_method_requirements ::
  "request \<Rightarrow> py_instance list \<Rightarrow> ('s, 'a) call \<Rightarrow> ('s, 'a) call" where
  "check_method_requirements req args func s =
     (case args of
        [] \<Rightarrow> (Inl (IndexError ''tuple index out of range''), s)
      | self # _ \<Rightarrow>
          (let cls = class_name self; meth = lower (req_method req)
           in if req_method req \<noteq> ''DELETE'' then
                (if \<not> hasattr self ''schema''
                 then (Inl (PlainException (error_message ''a schema class'' cls meth)), s)
                 else func s)
              else func s))"

section \<open>jsonapi_exception_formatter\<close>

text \<open>
  The ambient application: \<^verbatim>\<open>current_app.config\<close> and \<^verbatim>\<open>current_app.extensions\<close>.
  An extension is known by its \<^verbatim>\<open>captureException\<close> operation, a call on the world
  state like any other.
\<close>

datatype 's extension = Extension (captureException: "('s, unit) call")

record 's app =
  config :: "string \<rightharpoonup> pyval"
  extensions :: "string \<rightharpoonup> 's extension"

text \<open>\<^verbatim>\<open>config.get(key)\<close>: the value, or \<^verbatim>\<open>None\<close> for a missing key.\<close>

definition config_get :: "'s app \<Rightarrow> string \<Rightarrow> pyval" where
  "config_get ap key = (case config ap key of None \<Rightarrow> PyNone | Some v \<Rightarrow> v)"

text \<open>Lines 101 to 113: the failure turned into a \<^verbatim>\<open>JsonApiException\<close> and answered.\<close>

definition translate :: "'s app \<Rightarrow> py_exception \<Rightarrow> response" where
  "translate ap e =
     (let exc = JsonApiException_init
                  (getattr e ''detail''
                     (py_or (config_get ap ''GLOBAL_ERROR_MESSAGE'') (PyStr (exc_str e))))
                  (getattr e ''source'' (PyStr []))
                  (getattr e ''title'' PyNone)
                  (getattr e ''status'' PyNone)
                  (getattr e ''code'' PyNone)
                  (getattr e ''id'' PyNone)
                  (getattr e ''links'' PyNone)
                  (getattr e ''meta'' PyNone)
      in make_response (jsonapi_errors [to_dict exc]) (status exc)
           [''Content-Type'' \<mapsto> ''application/vnd.api+json''])"

text \<open>
  Lines 94 to 113, the clause \<^verbatim>\<open>except Exception\<close>. \<^verbatim>\<open>config['DEBUG']\<close> is a
  subscript and raises when the key is missing; \<^verbatim>\<open>config.get\<close> does not. The call
  of \<^verbatim>\<open>captureException\<close> stands in no \<^verbatim>\<open>try\<close> of its own.
\<close>

definition handle_exception :: "'s app \<Rightarrow> py_exception \<Rightarrow> ('s, 'a reply) call" where
  "handle_exception ap e s =
     (case config ap ''DEBUG'' of
        None \<Rightarrow> (Inl (KeyError ''DEBUG''), s)
      | Some debug \<Rightarrow>
          (if debug = PyBool True \<or> config_get ap ''PROPAGATE_EXCEPTIONS'' = PyBool True
           then (Inl (Exception e), s)
           else (case extensions ap ''sentry'' of
                   None \<Rightarrow> (Inr (Made (translate ap e)), s)
                 | Some sentry \<Rightarrow>
                     (case captureException sentry s of
                        (Inl x, s') \<Rightarrow> (Inl x, s')
                      | (Inr u, s') \<Rightarrow> (Inr (Made (translate ap e)), s')))))"

text \<open>Lines 86 to 113: the \<^verbatim>\<open>try\<close> statement around the wrapped call.\<close>

definition jsonapi_exception_formatter :: "'s app \<Rightarrow> ('s, 'a) call \<Rightarrow> ('s, 'a reply) call" where
  "jsonapi_exception_formatter ap func s =
     (let hdrs = [''Content-Type'' \<mapsto> ''application/vnd.api+json'']
      in case func s of
           (Inr v, s') \<Rightarrow> (Inr (Passed v), s')
         | (Inl (JsonApiException e), s') \<Rightarrow>
             (Inr (Made (make_response (jsonapi_errors [to_dict e]) (status e) hdrs)), s')
         | (Inl (Exception e), s') \<Rightarrow> handle_exception ap e s'
         | (Inl (BaseException b), s') \<Rightarrow> (Inl (BaseException b), s'))"

section \<open>Sample requests, handlers and applications\<close>

text \<open>
  Concrete values for the closed instances below. The world state is a counter: a view
  function adds one to it, a successful error report adds ten.
\<close>

definition view_ok :: "(nat, string) call" where
  "view_ok s = (Inr ''ok'', Suc s)"

definition not_found :: japi_exception where
  "not_found = JsonApiException_init (PyStr ''Not found'') PyNone PyNone (PyStr ''404'')
                 PyNone PyNone PyNone PyNone"

definition view_not_found :: "(nat, string) call" where
  "view_not_found s = (Inl (JsonApiException not_found), Suc s)"

definition boom :: py_exception where
  "boom = \<lparr>exc_class = ''ValueError'', exc_str = ''boom'', exc_attrs = Map.empty\<rparr>"

definition view_boom :: "(nat, string) call" where
  "view_boom s = (Inl (Exception boom), Suc s)"

definition production :: "nat app" where
  "production = \<lparr>config = [''DEBUG'' \<mapsto> PyBool False], extensions = Map.empty\<rparr>"

definition debugging :: "nat app" where
  "debugging =
     \<lparr>config = [''DEBUG'' \<mapsto> PyBool True, ''PROPAGATE_EXCEPTIONS'' \<mapsto> PyBool True],
      extensions = Map.empty\<rparr>"

definition unreachable :: py_exception where
  "unreachable = \<lparr>exc_class = ''ConnectionError'', exc_str = ''sentry unreachable'',
                   exc_attrs = Map.empty\<rparr>"

definition capture_fails :: "(nat, unit) call" where
  "capture_fails s = (Inl (Exception unreachable), s)"

definition capture_ok :: "(nat, unit) call" where
  "capture_ok s = (Inr (), s + 10)"

definition production_sentry_down :: "nat app" where
  "production_sentry_down =
     \<lparr>config = [''DEBUG'' \<mapsto> PyBool False],
      extensions = [''sentry'' \<mapsto> Extension capture_fails]\<rparr>"

definition production_sentry_up :: "nat app" where
  "production_sentry_up =
     \<lparr>config = [''DEBUG'' \<mapsto> PyBool False],
      extensions = [''sentry'' \<mapsto> Extension capture_ok]\<rparr>"

definition person_list :: py_instance where
  "person_list = \<lparr>class_name = ''PersonList'', attributes = {''data_layer''}\<rparr>"


text \<open>The two responses \<^verbatim>\<open>check_headers\<close> makes itself.\<close>

definition response_415 :: response where
  "response_415 = make_response (jsonapi_errors [error_415]) (PyInt 415)
                    [''Content-Type'' \<mapsto> ''application/vnd.api+json'']"

definition response_406 :: response where
  "response_406 = make_response (jsonapi_errors [error_406]) (PyInt 406)
                    [''Content-Type'' \<mapsto> ''application/vnd.api+json'']"

section \<open>The Accept loop\<close>

text \<open>
  An exact match anywhere among the candidates ends the loop with the flag down, whatever
  came before it.
\<close>

lemma accept_loop_exact:
  "\<exists>c\<in>set cands. strip c \<in> ALLOWED_HEADERS \<Longrightarrow> \<not> accept_loop flag cands"
  by (induction cands arbitrary: flag) auto

text \<open>Without an exact match the flag goes up at the first parameterised candidate and stays up.\<close>

lemma accept_loop_no_exact:
  "\<forall>c\<in>set cands. strip c \<notin> ALLOWED_HEADERS \<Longrightarrow>
   accept_loop flag cands =
     (flag \<or> (\<exists>c\<in>set cands. sublist ''application/vnd.api+json'' c
                                \<and> strip c \<noteq> ''application/vnd.api+json''))"
  by (induction cands arbitrary: flag) auto

text \<open>
  The source looks for the media type in the candidate as split, and compares the
  stripped candidate. The media type holds no whitespace, so it occurs in a candidate
  exactly when it occurs in the stripped one.
\<close>

lemma sublist_dropWhile_keep:
  assumes "sublist xs ys" and "xs \<noteq> []" and "\<not> P (hd xs)"
  shows "sublist xs (dropWhile P ys)"
proof -
  from assms(1) obtain ps ss where ys: "ys = ps @ xs @ ss"
    by (auto simp: sublist_def)
  show ?thesis
  proof (cases "\<forall>x\<in>set ps. P x")
    case True
    then have "dropWhile P ys = dropWhile P (xs @ ss)"
      by (simp add: ys dropWhile_append)
    also have "\<dots> = xs @ ss"
      using assms(2,3) by (cases xs) auto
    finally show ?thesis by simp
  next
    case False
    then have "dropWhile P ys = dropWhile P ps @ xs @ ss"
      by (auto simp: ys dropWhile_append)
    then show ?thesis by simp
  qed
qed

lemma sublist_strip_keep:
  assumes "sublist xs a" and "xs \<noteq> []" and "\<not> is_space (hd xs)" and "\<not> is_space (last xs)"
  shows "sublist xs (strip a)"
proof -
  have front: "sublist xs (dropWhile is_space a)"
    using assms by (intro sublist_dropWhile_keep)
  have "sublist (rev xs) (dropWhile is_space (rev (dropWhile is_space a)))"
    using front assms by (intro sublist_dropWhile_keep) (auto simp: hd_rev)
  then show ?thesis
    by (simp add: strip_def sublist_rev_left)
qed

lemma sublist_strip:
  assumes "sublist xs (strip a)"
  shows "sublist xs a"
proof -
  have "sublist (strip a) a"
    unfolding strip_def
    by (metis sublist_dropWhile sublist_order.order_trans sublist_rev_left)
  with assms show ?thesis
    by (rule sublist_order.order_trans)
qed

lemma media_type_in_stripped:
  "sublist ''application/vnd.api+json'' (strip a) = sublist ''application/vnd.api+json'' a"
proof
  assume "sublist ''application/vnd.api+json'' (strip a)"
  then show "sublist ''application/vnd.api+json'' a" by (rule sublist_strip)
next
  assume "sublist ''application/vnd.api+json'' a"
  then show "sublist ''application/vnd.api+json'' (strip a)"
    by (rule sublist_strip_keep) (simp_all add: is_space_def)
qed

section \<open>Properties of check_headers\<close>

text \<open>
  For POST and PATCH the first block decides alone: the subscript raises when the header
  is missing, and with the header there \<^verbatim>\<open>has_content_type_header\<close> is false, so the
  415 response is returned whatever the value.
\<close>

lemma check_headers_body_method:
  assumes "req_method req \<in> {''POST'', ''PATCH''}"
  shows "check_headers req func s =
           (case headers req ''Content-Type'' of
              None \<Rightarrow> (Inl (KeyError ''Content-Type''), s)
            | Some v \<Rightarrow> (Inr (Made response_415), s))"
  using assms by (auto simp: check_headers_def response_415_def Let_def split: option.splits)

lemma check_headers_other_method:
  assumes "req_method req \<notin> {''POST'', ''PATCH''}"
  shows "check_headers req func s = check_accept req func s"
  using assms by (simp add: check_headers_def)

lemma check_accept_exact:
  assumes "headers req ''Accept'' = Some (HStr a)"
    and "c \<in> set (split CHR '','' a)" and "strip c \<in> ALLOWED_HEADERS"
  shows "check_accept req func s = return_call func s"
proof -
  have "\<not> accept_loop False (split CHR '','' a)"
    using assms(2,3) by (intro accept_loop_exact) blast
  then show ?thesis
    by (simp add: check_accept_def assms(1))
qed

lemma check_accept_parameterized:
  assumes "headers req ''Accept'' = Some (HStr a)"
    and "\<forall>c\<in>set (split CHR '','' a). strip c \<notin> ALLOWED_HEADERS"
    and "c \<in> set (split CHR '','' a)"
    and "sublist ''application/vnd.api+json'' (strip c)"
    and "strip c \<noteq> ''application/vnd.api+json''"
  shows "check_accept req func s = (Inr (Made response_406), s)"
proof -
  have "sublist ''application/vnd.api+json'' c"
    using assms(4) by (simp add: media_type_in_stripped)
  then have "accept_loop False (split CHR '','' a)"
    using assms(2,3,5) by (subst accept_loop_no_exact) auto
  then show ?thesis
    by (simp add: check_accept_def assms(1) response_406_def)
qed

text \<open>
  What holds of the 406 rejection for the methods that reach the Accept check: status,
  title, a single error and the response header. The detail is looked at separately below.
\<close>

lemma check_headers_parameterized_accept:
  assumes "req_method req \<notin> {''POST'', ''PATCH''}"
    and "headers req ''Accept'' = Some (HStr a)"
    and "\<forall>c\<in>set (split CHR '','' a). strip c \<notin> ALLOWED_HEADERS"
    and "c \<in> set (split CHR '','' a)"
    and "sublist ''application/vnd.api+json'' (strip c)"
    and "strip c \<noteq> ''application/vnd.api+json''"
  shows "check_headers req func s = (Inr (Made response_406), s)
       \<and> status_code response_406 = PyInt 406
       \<and> map (\<lambda>e. (e ''status'', e ''title'')) (errors (body response_406))
           = [(Some (PyStr ''406''), Some (PyStr ''Invalid request header''))]
       \<and> resp_headers response_406 ''Content-Type'' = Some ''application/vnd.api+json''"
  using check_accept_parameterized [OF assms(2-6)] assms(1)
  by (simp add: check_headers_other_method response_406_def make_response_def
        jsonapi_errors_def error_406_def)

lemma return_call_not_made: "return_call func s \<noteq> (Inr (Made r), s')"
  by (auto simp: return_call_def split: prod.splits sum.splits)

lemma check_headers_made:
  assumes "check_headers req func s = (Inr (Made r), s')"
  shows "r = response_415 \<or> r = response_406"
proof (cases "req_method req \<in> {''POST'', ''PATCH''}")
  case True
  with assms show ?thesis
    by (auto simp: check_headers_body_method split: option.splits)
next
  case False
  with assms have "check_accept req func s = (Inr (Made r), s')"
    by (simp add: check_headers_other_method)
  then show ?thesis
    by (auto simp: check_accept_def response_406_def return_call_not_made
             split: option.splits header_value.splits if_splits)
qed

text \<open>
  C1. A POST request whose Content-Type is \<^verbatim>\<open>application/vnd.api+json\<close> should be
  handed to the wrapped handler. On the code it is answered with the 415 response and the
  handler is not called: the result is the same for every handler and the world state is
  unchanged.
\<close>

theorem check_headers_rejects_allowed_content_type:
  "check_headers \<lparr>req_method = ''POST'',
       headers = [''Content-Type'' \<mapsto> HStr ''application/vnd.api+json'']\<rparr> func s
     = (Inr (Made response_415), s)
   \<and> status_code response_415 = PyInt 415"
  by (simp add: check_headers_body_method response_415_def make_response_def)

text \<open>
  C2. A POST request without a Content-Type header should be answered with the 415
  response. On the code the subscript \<^verbatim>\<open>request.headers['Content-Type']\<close> raises
  \<^verbatim>\<open>KeyError\<close> before any response is made.
\<close>

theorem check_headers_missing_content_type_raises:
  "check_headers \<lparr>req_method = ''POST'', headers = Map.empty\<rparr> func s
     = (Inl (KeyError ''Content-Type''), s)"
  by (simp add: check_headers_body_method)

text \<open>
  C4. A request whose Accept header holds only a parameterised
  \<^verbatim>\<open>application/vnd.api+json\<close> is answered with status 406, and the detail of its error
  should read "... without media type parameters". On the code the two literals are
  joined with no space between them.
\<close>

theorem check_headers_406_detail:
  "check_headers \<lparr>req_method = ''GET'',
       headers = [''Accept'' \<mapsto> HStr ''application/vnd.api+json; charset=utf-8'']\<rparr> func s
     = (Inr (Made response_406), s)
   \<and> map (\<lambda>e. e ''detail'') (errors (body response_406))
       = [Some (PyStr ''Accept header must be application/vnd.api+json withoutmedia type parameters'')]"
  by (simp add: check_headers_def check_accept_def response_406_def make_response_def
        jsonapi_errors_def error_406_def strip_def is_space_def ALLOWED_HEADERS_def
        sublist_code prefix_code)

text \<open>
  C7. When some candidate of the Accept header, split on commas and stripped, equals an
  accepted media type, the Accept check hands the request to the wrapped function
  whatever the other candidates are and wherever they stand; so for every method but POST
  and PATCH \<^verbatim>\<open>check_headers\<close> returns what the wrapped function returns, and for no
  method does it answer 406.
\<close>

theorem check_headers_accept_exact_match:
  assumes "headers req ''Accept'' = Some (HStr a)"
    and "c \<in> set (split CHR '','' a)" and "strip c \<in> ALLOWED_HEADERS"
  shows "check_accept req func s = return_call func s
       \<and> (req_method req \<notin> {''POST'', ''PATCH''} \<longrightarrow> check_headers req func s = return_call func s)
       \<and> (\<forall>r s'. check_headers req func s = (Inr (Made r), s') \<longrightarrow> status_code r \<noteq> PyInt 406)"
proof -
  have acc: "check_accept req func s = return_call func s"
    using assms by (rule check_accept_exact)
  have other: "check_headers req func s = return_call func s"
    if "req_method req \<notin> {''POST'', ''PATCH''}"
    using that acc by (simp add: check_headers_other_method)
  have "status_code r \<noteq> PyInt 406"
    if made: "check_headers req func s = (Inr (Made r), s')" for r s'
  proof (cases "req_method req \<in> {''POST'', ''PATCH''}")
    case True
    with made have "r = response_415"
      by (auto simp: check_headers_body_method split: option.splits)
    then show ?thesis by (simp add: response_415_def make_response_def)
  next
    case False
    with made other have "return_call func s = (Inr (Made r), s')" by simp
    then show ?thesis by (simp add: return_call_not_made)
  qed
  with acc other show ?thesis by blast
qed

text \<open>
  The instance has a parameterised candidate before the exact one: the view function runs
  (the counter moves) and its value comes back.
\<close>

theorem check_headers_accept_exact_match_witness:
  "check_headers \<lparr>req_method = ''GET'',
       headers = [''Accept'' \<mapsto>
          HStr ''application/vnd.api+json; charset=utf-8, application/vnd.api+json'']\<rparr>
     view_ok 0 = (Inr (Passed ''ok''), 1)"
proof -
  let ?a = "''application/vnd.api+json; charset=utf-8, application/vnd.api+json''"
  let ?req = "\<lparr>req_method = ''GET'', headers = [''Accept'' \<mapsto> HStr ?a]\<rparr>"
  have 1: "headers ?req ''Accept'' = Some (HStr ?a)" by simp
  have 2: "'' application/vnd.api+json'' \<in> set (split CHR '','' ?a)" by simp
  have 3: "strip '' application/vnd.api+json'' \<in> ALLOWED_HEADERS"
    by (simp add: strip_def is_space_def ALLOWED_HEADERS_def)
  show ?thesis
    using check_headers_accept_exact_match [OF 1 2 3, of view_ok 0]
    by (simp add: return_call_def view_ok_def)
qed

section \<open>Properties of check_method_requirements\<close>

lemma lower_GET: "lower ''GET'' = ''get''"
  by code_simp

text \<open>
  C8. Called on an object without a \<^verbatim>\<open>schema\<close> attribute, for any method but DELETE,
  the guard raises an exception whose message is "You must provide a schema class in
  <class> to get access to the default <method> method", the method in lower case, and
  the wrapped function is not called; for DELETE the wrapped function is called unchecked.
\<close>

theorem check_method_requirements_schema:
  "(req_method req \<noteq> ''DELETE'' \<and> \<not> hasattr self ''schema'' \<longrightarrow>
      check_method_requirements req (self # args) func s =
        (Inl (PlainException (''You must provide a schema class in '' @ class_name self
                @ '' to get access to the default '' @ lower (req_method req) @ '' method'')), s))
   \<and> (req_method req = ''DELETE'' \<longrightarrow>
      check_method_requirements req (self # args) func s = func s)"
  by (simp add: check_method_requirements_def error_message_def Let_def)

theorem check_method_requirements_schema_witness:
  "check_method_requirements \<lparr>req_method = ''GET'', headers = Map.empty\<rparr> [person_list] view_ok 0
     = (Inl (PlainException
          ''You must provide a schema class in PersonList to get access to the default get method''), 0)
   \<and> check_method_requirements \<lparr>req_method = ''DELETE'', headers = Map.empty\<rparr> [person_list] view_ok 0
     = (Inr ''ok'', 1)"
  using check_method_requirements_schema
          [of "\<lparr>req_method = ''GET'', headers = Map.empty\<rparr>" person_list "[]" view_ok 0]
        check_method_requirements_schema
          [of "\<lparr>req_method = ''DELETE'', headers = Map.empty\<rparr>" person_list "[]" view_ok 0]
        lower_GET
  by (simp add: hasattr_def person_list_def view_ok_def)

section \<open>Properties of jsonapi_exception_formatter\<close>

lemma translate_single_error: "length (errors (body (translate ap e))) = 1"
  by (simp add: translate_def make_response_def jsonapi_errors_def Let_def)

lemma translate_content_type:
  "resp_headers (translate ap e) ''Content-Type'' = Some ''application/vnd.api+json''"
  by (simp add: translate_def make_response_def Let_def)

lemma handle_exception_made:
  assumes "handle_exception ap e s = (Inr (Made r), s')"
  shows "r = translate ap e"
  using assms
  by (auto simp: handle_exception_def split: option.splits if_splits prod.splits sum.splits)

lemma formatter_made:
  assumes "jsonapi_exception_formatter ap func s = (Inr (Made r), s')"
  shows "(\<exists>e. r = make_response (jsonapi_errors [to_dict e]) (status e)
                     [''Content-Type'' \<mapsto> ''application/vnd.api+json''])
       \<or> (\<exists>e. r = translate ap e)"
  using assms
  by (auto simp: jsonapi_exception_formatter_def
           split: prod.splits sum.splits exn.splits dest: handle_exception_made)

lemma formatter_production_boom:
  "jsonapi_exception_formatter production view_boom 0
     = (Inr (Made (translate production boom)), 1)"
  by (simp add: jsonapi_exception_formatter_def handle_exception_def view_boom_def
        production_def config_get_def)

text \<open>
  C6. When the wrapped call raises a \<^verbatim>\<open>JsonApiException\<close>, the formatter returns a
  response whose status is the exception's status, whose body is the envelope of the one
  error object the exception converts to, and whose Content-Type header is
  \<^verbatim>\<open>application/vnd.api+json\<close>.
\<close>

theorem formatter_jsonapi_exception_response:
  assumes "func s = (Inl (JsonApiException e), s')"
  shows "\<exists>r. jsonapi_exception_formatter ap func s = (Inr (Made r), s')
            \<and> status_code r = status e
            \<and> body r = jsonapi_errors [to_dict e]
            \<and> errors (body r) = [to_dict e]
            \<and> resp_headers r ''Content-Type'' = Some ''application/vnd.api+json''"
  using assms
  by (simp add: jsonapi_exception_formatter_def make_response_def jsonapi_errors_def)

theorem formatter_jsonapi_exception_response_witness:
  "\<exists>r. jsonapi_exception_formatter production view_not_found 0 = (Inr (Made r), 1)
       \<and> status_code r = PyStr ''404''
       \<and> map (\<lambda>e. (e ''status'', e ''detail'')) (errors (body r))
           = [(Some (PyStr ''404''), Some (PyStr ''Not found''))]
       \<and> resp_headers r ''Content-Type'' = Some ''application/vnd.api+json''"
proof -
  have raised: "view_not_found 0 = (Inl (JsonApiException not_found), 1)"
    by (simp add: view_not_found_def)
  show ?thesis
    using formatter_jsonapi_exception_response [of view_not_found 0 not_found 1 production] raised
    by (auto simp: not_found_def JsonApiException_init_def to_dict_def)
qed

text \<open>
  C9. The clause for \<^verbatim>\<open>JsonApiException\<close> comes before the configuration is read:
  when the wrapped call raises one, then under every application configuration (debug or
  propagate set, or DEBUG missing) the formatter returns the response made from that
  exception, with its status, the envelope of its one error object and the JSON:API
  content type; the result does not depend on the configuration and is never a raise. The
  re-raise under DEBUG or PROPAGATE_EXCEPTIONS is the path of the other exceptions.
\<close>

theorem formatter_jsonapi_exception_ignores_config:
  "(func s = (Inl (JsonApiException e), s') \<longrightarrow>
      jsonapi_exception_formatter ap func s
        = (Inr (Made \<lparr>body = \<lparr>errors = [to_dict e]\<rparr>, status_code = status e,
                       resp_headers = [''Content-Type'' \<mapsto> ''application/vnd.api+json'']\<rparr>), s')
      \<and> jsonapi_exception_formatter ap func s = jsonapi_exception_formatter ap' func s
      \<and> (\<forall>x t. jsonapi_exception_formatter ap func s \<noteq> (Inl x, t)))
   \<and> (func s = (Inl (Exception x), s') \<and> config ap ''DEBUG'' = Some d
        \<and> (d = PyBool True \<or> config_get ap ''PROPAGATE_EXCEPTIONS'' = PyBool True) \<longrightarrow>
      jsonapi_exception_formatter ap func s = (Inl (Exception x), s'))"
proof (intro conjI impI)
  assume raised: "func s = (Inl (JsonApiException e), s')"
  then show made: "jsonapi_exception_formatter ap func s
        = (Inr (Made \<lparr>body = \<lparr>errors = [to_dict e]\<rparr>, status_code = status e,
                       resp_headers = [''Content-Type'' \<mapsto> ''application/vnd.api+json'']\<rparr>), s')"
    by (simp add: jsonapi_exception_formatter_def make_response_def jsonapi_errors_def)
  from raised show "jsonapi_exception_formatter ap func s = jsonapi_exception_formatter ap' func s"
    by (simp add: jsonapi_exception_formatter_def)
  from made show "\<forall>x t. jsonapi_exception_formatter ap func s \<noteq> (Inl x, t)"
    by simp
next
  assume "func s = (Inl (Exception x), s') \<and> config ap ''DEBUG'' = Some d
        \<and> (d = PyBool True \<or> config_get ap ''PROPAGATE_EXCEPTIONS'' = PyBool True)"
  then show "jsonapi_exception_formatter ap func s = (Inl (Exception x), s')"
    by (auto simp: jsonapi_exception_formatter_def handle_exception_def)
qed

text \<open>
  The instance runs under an application with DEBUG and PROPAGATE_EXCEPTIONS both
  \<^verbatim>\<open>True\<close>: the 404 exception is answered with its envelope, the \<^verbatim>\<open>ValueError\<close> is
  raised again.
\<close>

theorem formatter_jsonapi_exception_ignores_config_witness:
  "jsonapi_exception_formatter debugging view_not_found 0
     = (Inr (Made \<lparr>body = \<lparr>errors = [to_dict not_found]\<rparr>, status_code = PyStr ''404'',
                    resp_headers = [''Content-Type'' \<mapsto> ''application/vnd.api+json'']\<rparr>), 1)
   \<and> map (\<lambda>e. (e ''status'', e ''detail'')) [to_dict not_found]
       = [(Some (PyStr ''404''), Some (PyStr ''Not found''))]
   \<and> jsonapi_exception_formatter debugging view_not_found 0
     = jsonapi_exception_formatter production view_not_found 0
   \<and> (\<forall>x t. jsonapi_exception_formatter debugging view_not_found 0 \<noteq> (Inl x, t))
   \<and> jsonapi_exception_formatter debugging view_boom 0 = (Inl (Exception boom), 1)"
proof -
  have raised: "view_not_found 0 = (Inl (JsonApiException not_found), 1)"
    by (simp add: view_not_found_def)
  have failed: "view_boom 0 = (Inl (Exception boom), 1)
      \<and> config debugging ''DEBUG'' = Some (PyBool True)
      \<and> (PyBool True = PyBool True \<or> config_get debugging ''PROPAGATE_EXCEPTIONS'' = PyBool True)"
    by (simp add: view_boom_def debugging_def)
  have st: "status not_found = PyStr ''404''"
    by (simp add: not_found_def JsonApiException_init_def)
  have fields: "map (\<lambda>e. (e ''status'', e ''detail'')) [to_dict not_found]
                  = [(Some (PyStr ''404''), Some (PyStr ''Not found''))]"
    by (simp add: not_found_def JsonApiException_init_def to_dict_def)
  have a: "jsonapi_exception_formatter debugging view_not_found 0
        = (Inr (Made \<lparr>body = \<lparr>errors = [to_dict not_found]\<rparr>, status_code = status not_found,
                       resp_headers = [''Content-Type'' \<mapsto> ''application/vnd.api+json'']\<rparr>), 1)
      \<and> jsonapi_exception_formatter debugging view_not_found 0
        = jsonapi_exception_formatter production view_not_found 0
      \<and> (\<forall>x t. jsonapi_exception_formatter debugging view_not_found 0 \<noteq> (Inl x, t))"
    using formatter_jsonapi_exception_ignores_config
            [of view_not_found 0 not_found 1 debugging production boom "PyBool True"]
          raised
    by blast
  have b: "jsonapi_exception_formatter debugging view_boom 0 = (Inl (Exception boom), 1)"
    using formatter_jsonapi_exception_ignores_config
            [of view_boom 0 not_found 1 debugging production boom "PyBool True"]
          failed
    by blast
  from a have a': "jsonapi_exception_formatter debugging view_not_found 0
        = (Inr (Made \<lparr>body = \<lparr>errors = [to_dict not_found]\<rparr>, status_code = PyStr ''404'',
                       resp_headers = [''Content-Type'' \<mapsto> ''application/vnd.api+json'']\<rparr>), 1)
      \<and> jsonapi_exception_formatter debugging view_not_found 0
        = jsonapi_exception_formatter production view_not_found 0
      \<and> (\<forall>x t. jsonapi_exception_formatter debugging view_not_found 0 \<noteq> (Inl x, t))"
    unfolding st .
  from a' b fields show ?thesis
    by blast
qed

text \<open>
  C5 (as amended). Outside debug and propagate mode, that is with DEBUG configured and
  not \<^verbatim>\<open>True\<close> and PROPAGATE_EXCEPTIONS not \<^verbatim>\<open>True\<close>, a failure that is not a
  \<^verbatim>\<open>JsonApiException\<close> is answered with a one-error envelope under the JSON:API content
  type when no error-tracking integration is configured, or when its capture operation
  returns. The capture call is not isolated: an exception it raises leaves the formatter.
\<close>

theorem formatter_unexpected_failure_production:
  assumes "func s = (Inl (Exception e), s1)"
    and "config ap ''DEBUG'' = Some d" and "d \<noteq> PyBool True"
    and "config_get ap ''PROPAGATE_EXCEPTIONS'' \<noteq> PyBool True"
  shows "(extensions ap ''sentry'' = None \<longrightarrow>
            jsonapi_exception_formatter ap func s = (Inr (Made (translate ap e)), s1))
       \<and> (\<forall>sentry u s2. extensions ap ''sentry'' = Some sentry
              \<and> captureException sentry s1 = (Inr u, s2) \<longrightarrow>
            jsonapi_exception_formatter ap func s = (Inr (Made (translate ap e)), s2))
       \<and> (\<forall>sentry x s2. extensions ap ''sentry'' = Some sentry
              \<and> captureException sentry s1 = (Inl x, s2) \<longrightarrow>
            jsonapi_exception_formatter ap func s = (Inl x, s2))
       \<and> length (errors (body (translate ap e))) = 1
       \<and> resp_headers (translate ap e) ''Content-Type'' = Some ''application/vnd.api+json''"
  using assms
  by (simp add: jsonapi_exception_formatter_def handle_exception_def translate_single_error
        translate_content_type)

theorem formatter_unexpected_failure_production_witness:
  "jsonapi_exception_formatter production view_boom 0
     = (Inr (Made (translate production boom)), 1)
   \<and> jsonapi_exception_formatter production_sentry_up view_boom 0
     = (Inr (Made (translate production_sentry_up boom)), 11)
   \<and> length (errors (body (translate production_sentry_up boom))) = 1
   \<and> map (\<lambda>e. (e ''status'', e ''detail'')) (errors (body (translate production_sentry_up boom)))
       = [(Some (PyStr ''400''), Some (PyStr ''boom''))]"
proof -
  have 1: "view_boom 0 = (Inl (Exception boom), 1)"
    by (simp add: view_boom_def)
  have 2: "config production ''DEBUG'' = Some (PyBool False)"
          "config production_sentry_up ''DEBUG'' = Some (PyBool False)"
    by (simp_all add: production_def production_sentry_up_def)
  have 3: "PyBool False \<noteq> PyBool True" by simp
  have 4: "config_get production ''PROPAGATE_EXCEPTIONS'' \<noteq> PyBool True"
          "config_get production_sentry_up ''PROPAGATE_EXCEPTIONS'' \<noteq> PyBool True"
    by (simp_all add: production_def production_sentry_up_def config_get_def)
  have 5: "extensions production ''sentry'' = None"
    by (simp add: production_def)
  have 6: "extensions production_sentry_up ''sentry'' = Some (Extension capture_ok)
           \<and> captureException (Extension capture_ok) 1 = (Inr (), 11)"
    by (simp add: production_sentry_up_def capture_ok_def)
  have 7: "map (\<lambda>e. (e ''status'', e ''detail''))
             (errors (body (translate production_sentry_up boom)))
           = [(Some (PyStr ''400''), Some (PyStr ''boom''))]"
    by (simp add: translate_def make_response_def jsonapi_errors_def to_dict_def
          JsonApiException_init_def getattr_def boom_def py_or_def config_get_def
          production_sentry_up_def)
  show ?thesis
    using formatter_unexpected_failure_production
            [of view_boom 0 boom 1 production "PyBool False"]
          formatter_unexpected_failure_production
            [of view_boom 0 boom 1 production_sentry_up "PyBool False"]
          1 2 3 4 5 6 7
    by blast
qed

text \<open>
  Counterexample to C5 as the specification words it: in production mode, with an
  integration whose capture operation fails, the formatter raises that failure and makes
  no response.
\<close>

theorem formatter_capture_failure_escapes:
  "jsonapi_exception_formatter production_sentry_down view_boom 0
     = (Inl (Exception unreachable), 1)"
  by (simp add: jsonapi_exception_formatter_def handle_exception_def view_boom_def
        production_sentry_down_def capture_fails_def config_get_def)




section \<open>The error responses of the three decorators\<close>

text \<open>
  C10. Every response one of the decorators makes itself, the 415 and 406 rejections of
  \<^verbatim>\<open>check_headers\<close> and the two answers of \<^verbatim>\<open>jsonapi_exception_formatter\<close>, has a
  body whose list of errors holds exactly one error object.
\<close>

theorem error_responses_single_error:
  "(check_headers req func s = (Inr (Made r), s') \<longrightarrow> length (errors (body r)) = 1)
   \<and> (jsonapi_exception_formatter ap func' t = (Inr (Made r'), t') \<longrightarrow>
        length (errors (body r')) = 1)"
proof (intro conjI impI)
  assume "check_headers req func s = (Inr (Made r), s')"
  then have "r = response_415 \<or> r = response_406"
    by (rule check_headers_made)
  then show "length (errors (body r)) = 1"
    by (auto simp: response_415_def response_406_def make_response_def jsonapi_errors_def)
next
  assume "jsonapi_exception_formatter ap func' t = (Inr (Made r'), t')"
  from formatter_made [OF this] show "length (errors (body r')) = 1"
    by (auto simp: translate_single_error make_response_def jsonapi_errors_def)
qed

text \<open>One instance for each of the four responses.\<close>

theorem error_responses_single_error_witness:
  "check_headers \<lparr>req_method = ''POST'', headers = [''Content-Type'' \<mapsto> HStr ''text/plain'']\<rparr>
      view_ok 0
      = (Inr (Made response_415), 0)
   \<and> length (errors (body response_415)) = 1
   \<and> check_headers \<lparr>req_method = ''GET'',
         headers = [''Accept'' \<mapsto> HStr ''application/vnd.api+json; charset=utf-8'']\<rparr> view_ok 0
      = (Inr (Made response_406), 0)
   \<and> length (errors (body response_406)) = 1
   \<and> jsonapi_exception_formatter production view_not_found 0
      = (Inr (Made (make_response (jsonapi_errors [to_dict not_found]) (status not_found)
                      [''Content-Type'' \<mapsto> ''application/vnd.api+json''])), 1)
   \<and> length (errors (body (make_response (jsonapi_errors [to_dict not_found]) (status not_found)
                      [''Content-Type'' \<mapsto> ''application/vnd.api+json'']))) = 1
   \<and> jsonapi_exception_formatter production view_boom 0
      = (Inr (Made (translate production boom)), 1)
   \<and> length (errors (body (translate production boom))) = 1"
proof -
  let ?post = "\<lparr>req_method = ''POST'', headers = [''Content-Type'' \<mapsto> HStr ''text/plain'']\<rparr>"
  let ?get = "\<lparr>req_method = ''GET'',
               headers = [''Accept'' \<mapsto> HStr ''application/vnd.api+json; charset=utf-8'']\<rparr>"
  let ?r = "make_response (jsonapi_errors [to_dict not_found]) (status not_found)
              [''Content-Type'' \<mapsto> ''application/vnd.api+json'']"
  have a: "check_headers ?post view_ok 0 = (Inr (Made response_415), 0)"
    by (simp add: check_headers_body_method)
  have b: "check_headers ?get view_ok 0 = (Inr (Made response_406), 0)"
    by (simp add: check_headers_def check_accept_def response_406_def strip_def is_space_def
          ALLOWED_HEADERS_def sublist_code prefix_code)
  have c: "jsonapi_exception_formatter production view_not_found 0 = (Inr (Made ?r), 1)"
    by (simp add: jsonapi_exception_formatter_def view_not_found_def)
  have d: "jsonapi_exception_formatter production view_boom 0
             = (Inr (Made (translate production boom)), 1)"
    by (rule formatter_production_boom)
  show ?thesis
    using a b c d
      error_responses_single_error
        [of ?post view_ok 0 response_415 0 production view_not_found 0 ?r 1]
      error_responses_single_error
        [of ?get view_ok 0 response_406 0 production view_boom 0 "translate production boom" 1]
    by blast
qed

end
